theory Spec2Isabelle
  imports Main
begin

section \<open>The installer script as a trace-producing program\<close>

text \<open>
  The script \<^verbatim>\<open>src/index.js\<close> computes nothing: all it does is print lines, run
  external commands with \<^verbatim>\<open>execSync\<close>, ask one question on the terminal and end the
  process. The model therefore makes these effects the data. A piece of the script is a
  function from the history of events so far to a completion and the extended history;
  what the outside world answers (does a command succeed, which line does the user type)
  is read from an environment that may depend on everything that has happened before.

  Every \<^verbatim>\<open>async\<close> method is awaited where it is called, so the callee runs to its end
  before the caller goes on, and an error thrown in the callee is thrown again at the
  \<^verbatim>\<open>await\<close>: calls are modelled as plain sequencing. Lines 215-219, which build the
  installer, call \<^verbatim>\<open>execute\<close> and close the terminal once it has returned, are not
  modelled; the platform tag that the constructor reads from \<^verbatim>\<open>process.platform\<close> is a
  parameter.
\<close>

subsection \<open>Events, completions and the environment\<close>

text \<open>The \<^verbatim>\<open>stdio\<close> option passed to \<^verbatim>\<open>execSync\<close>: the existence probes of
  \<^verbatim>\<open>checkCommand\<close> pass \<^verbatim>\<open>'ignore'\<close>, every other invocation \<^verbatim>\<open>'inherit'\<close>.\<close>

datatype stdio = Ignore | Inherit

text \<open>What one \<^verbatim>\<open>execSync\<close> call does: it returns, or it throws an \<^verbatim>\<open>Error\<close>
  whose \<^verbatim>\<open>message\<close> is the given string. The call blocks until the subprocess has
  ended (a subprocess that never ends is outside the model).\<close>

datatype outcome = Succeeded | Failed string

text \<open>The methods of \<^verbatim>\<open>ReactNativeInstaller\<close> whose entry the trace records.\<close>

datatype procedure =
    CheckPrerequisites
  | CheckNodeJS
  | InstallReactNativeCLI
  | SetupMacOS
  | SetupLinux
  | SetupWindows
  | PrintNextSteps

text \<open>
  \<^item> \<open>Log s\<close>: \<^verbatim>\<open>console.log(s)\<close>;
  \<^item> \<open>Exec c io r\<close>: \<^verbatim>\<open>execSync(c, { stdio: io })\<close> with its outcome \<open>r\<close>;
  \<^item> \<open>Question q a\<close>: \<^verbatim>\<open>rl.question(q, ...)\<close>; \<open>a\<close> is the line entered, \<open>None\<close> when
    no line is ever entered (the promise is never resolved);
  \<^item> \<open>Call f\<close>: the body of method \<open>f\<close> is entered.
\<close>

datatype event =
    Log string
  | Exec string stdio outcome
  | Question string "string option"
  | Call procedure

text \<open>How a piece of the script can end other than by returning a value: a thrown
  error (its message), \<^verbatim>\<open>process.exit(n)\<close>, or waiting forever for the terminal.\<close>

datatype abrupt = Throw string | Exit nat | Pending

type_synonym 'a js = "event list \<Rightarrow> (abrupt + 'a) \<times> event list"

record env =
  execSync_result :: "event list \<Rightarrow> string \<Rightarrow> outcome"
  question_result :: "event list \<Rightarrow> string \<Rightarrow> string option"

subsection \<open>Sequencing, \<^verbatim>\<open>try\<close>/\<^verbatim>\<open>catch\<close> and the primitive effects\<close>

definition js_return :: "'a \<Rightarrow> 'a js" where
  "js_return x t = (Inr x, t)"

definition js_bind :: "'a js \<Rightarrow> ('a \<Rightarrow> 'b js) \<Rightarrow> 'b js" where
  "js_bind m f t =
     (case m t of
        (Inl a, t') \<Rightarrow> (Inl a, t')
      | (Inr x, t') \<Rightarrow> f x t')"

text \<open>A block of statements, run in order; the first abrupt completion ends it.\<close>

fun block :: "unit js list \<Rightarrow> unit js" where
  "block [] = js_return ()"
| "block (m # ms) = js_bind m (\<lambda>_. block ms)"

text \<open>\<^verbatim>\<open>try { m } catch (error) { h error.message }\<close>: only a thrown error is caught;
  \<^verbatim>\<open>process.exit\<close> ends the process whether or not a handler is around it.\<close>

definition try_catch :: "'a js \<Rightarrow> (string \<Rightarrow> 'a js) \<Rightarrow> 'a js" where
  "try_catch m h t =
     (case m t of
        (Inl a, t') \<Rightarrow> (case a of Throw message \<Rightarrow> h message t' | _ \<Rightarrow> (Inl a, t'))
      | (Inr x, t') \<Rightarrow> (Inr x, t'))"

definition emit :: "event \<Rightarrow> unit js" where
  "emit ev t = (Inr (), t @ [ev])"

definition console_log :: "string \<Rightarrow> unit js" where
  "console_log s = emit (Log s)"

definition execSync :: "env \<Rightarrow> string \<Rightarrow> stdio \<Rightarrow> unit js" where
  "execSync e command io t =
     (case execSync_result e t command of
        Succeeded \<Rightarrow> (Inr (), t @ [Exec command io Succeeded])
      | Failed message \<Rightarrow> (Inl (Throw message), t @ [Exec command io (Failed message)]))"

definition process_exit :: "nat \<Rightarrow> 'a js" where
  "process_exit n t = (Inl (Exit n), t)"

text \<open>Lines 206-212: the promise resolves with the line entered, if one ever is.\<close>

definition question :: "env \<Rightarrow> string \<Rightarrow> string js" where
  "question e query t =
     (case question_result e t query of
        Some answer \<Rightarrow> (Inr answer, t @ [Question query (Some answer)])
      | None \<Rightarrow> (Inl Pending, t @ [Question query None]))"

text \<open>\<^verbatim>\<open>String.prototype.toLowerCase\<close> on a string of 8-bit characters: the letters
  \<^verbatim>\<open>A\<close> to \<^verbatim>\<open>Z\<close> (codes 65 to 90) go to \<^verbatim>\<open>a\<close> to \<^verbatim>\<open>z\<close>, every other character stays.
  This is what JavaScript does on ASCII text; letters beyond ASCII, which JavaScript
  would map as well, are left as they are.\<close>

definition toLowerCase :: "string \<Rightarrow> string" where
  "toLowerCase s =
     map (\<lambda>c. if 65 \<le> (of_char c :: nat) \<and> (of_char c :: nat) \<le> 90
              then char_of (of_char c + 32 :: nat) else c) s"

subsection \<open>Lines 13-35: colours and the four kinds of message\<close>

definition colors_reset :: string where "colors_reset = CHR 0x1B # ''[0m''"
definition colors_green :: string where "colors_green = CHR 0x1B # ''[32m''"
definition colors_red :: string where "colors_red = CHR 0x1B # ''[31m''"
definition colors_yellow :: string where "colors_yellow = CHR 0x1B # ''[33m''"
definition colors_cyan :: string where "colors_cyan = CHR 0x1B # ''[36m''"

definition step_line :: "string \<Rightarrow> string" where
  "step_line message = colors_cyan @ ''[STEP]'' @ colors_reset @ '' '' @ message"

definition success_line :: "string \<Rightarrow> string" where
  "success_line message = colors_green @ ''[SUCCESS]'' @ colors_reset @ '' '' @ message"

definition error_line :: "string \<Rightarrow> string" where
  "error_line message = colors_red @ ''[ERROR]'' @ colors_reset @ '' '' @ message"

definition warning_line :: "string \<Rightarrow> string" where
  "warning_line message = colors_yellow @ ''[WARNING]'' @ colors_reset @ '' '' @ message"

definition printStep :: "string \<Rightarrow> unit js" where
  "printStep message = console_log (step_line message)"

definition printSuccess :: "string \<Rightarrow> unit js" where
  "printSuccess message = console_log (success_line message)"

definition printError :: "string \<Rightarrow> unit js" where
  "printError message = console_log (error_line message)"

definition printWarning :: "string \<Rightarrow> unit js" where
  "printWarning message = console_log (warning_line message)"

subsection \<open>Lines 74-212: the methods\<close>

definition checkCommand :: "env \<Rightarrow> string \<Rightarrow> bool js" where
  "checkCommand e command =
     try_catch
       (js_bind (execSync e (command @ '' --version'') Ignore) (\<lambda>_. js_return True))
       (\<lambda>error. js_return False)"

definition checkPrerequisites :: "env \<Rightarrow> unit js" where
  "checkPrerequisites e = block [
     emit (Call CheckPrerequisites),
     printStep ''Checking prerequisites...'',
     js_bind (checkCommand e ''git'') (\<lambda>found.
       if \<not> found then block [
         printWarning ''Git is not installed. Please install Git and run this script again.'',
         process_exit 1]
       else js_return ()),
     printSuccess ''Prerequisites check complete.'']"

definition checkNodeJS :: "env \<Rightarrow> string \<Rightarrow> unit js" where
  "checkNodeJS e platform = block [
     emit (Call CheckNodeJS),
     printStep ''Checking Node.js installation...'',
     js_bind (checkCommand e ''node'') (\<lambda>found.
       if \<not> found then block [
         printStep ''Node.js not found. Installing using NVM...'',
         if platform = ''win32'' then block [
           printWarning ''Please install Node.js from https://nodejs.org/'',
           process_exit 1]
         else block [
           execSync e ''curl -o- https://raw.githubusercontent.com/nvm-sh/nvm/v0.39.0/install.sh | bash'' Inherit,
           execSync e ''source ~/.bashrc && nvm install --lts'' Inherit]]
       else printSuccess ''Node.js is already installed.'')]"

definition installReactNativeCLI :: "env \<Rightarrow> unit js" where
  "installReactNativeCLI e = block [
     emit (Call InstallReactNativeCLI),
     printStep ''Installing React Native CLI...'',
     execSync e ''npm install -g react-native-cli'' Inherit,
     printSuccess ''React Native CLI installed successfully.'']"

definition setupMacOS :: "env \<Rightarrow> unit js" where
  "setupMacOS e = block [
     emit (Call SetupMacOS),
     printStep ''Setting up macOS development environment...'',
     js_bind (checkCommand e ''brew'') (\<lambda>found.
       if \<not> found then block [
         printStep ''Installing Homebrew...'',
         execSync e ''/bin/bash -c \"$(curl -fsSL https://raw.githubusercontent.com/Homebrew/install/HEAD/install.sh)\"'' Inherit]
       else js_return ()),
     printStep ''Installing watchman...'',
     execSync e ''brew install watchman'' Inherit,
     js_bind (checkCommand e ''xcode-select'') (\<lambda>found.
       if \<not> found then
         printWarning ''Xcode is not installed. Please install Xcode from the App Store.''
       else js_return ()),
     printStep ''Installing Java Development Kit...'',
     execSync e ''brew install adoptopenjdk/openjdk/adoptopenjdk11'' Inherit,
     js_bind (question e ''Would you like to download Android Studio? (y/n): '') (\<lambda>answer.
       if toLowerCase answer = ''y'' then block [
         execSync e ''open https://developer.android.com/studio'' Inherit,
         printWarning ''Please complete Android Studio installation and setup Android SDK manually.'']
       else js_return ()),
     printSuccess ''macOS development environment setup complete.'']"

definition setupLinux :: "env \<Rightarrow> unit js" where
  "setupLinux e = block [
     emit (Call SetupLinux),
     printStep ''Setting up Linux development environment...'',
     printStep ''Installing Java Development Kit...'',
     execSync e ''sudo apt-get update'' Inherit,
     execSync e ''sudo apt-get install -y openjdk-11-jdk'' Inherit,
     printStep ''Installing additional dependencies...'',
     execSync e ''sudo apt-get install -y android-tools-adb android-tools-fastboot'' Inherit,
     js_bind (question e ''Would you like to download Android Studio? (y/n): '') (\<lambda>answer.
       if toLowerCase answer = ''y'' then block [
         execSync e ''xdg-open https://developer.android.com/studio'' Inherit,
         printWarning ''Please complete Android Studio installation and setup Android SDK manually.'']
       else js_return ()),
     printSuccess ''Linux development environment setup complete.'']"

definition setupWindows :: "env \<Rightarrow> unit js" where
  "setupWindows e = block [
     emit (Call SetupWindows),
     printStep ''Setting up Windows development environment...'',
     js_bind (checkCommand e ''choco'') (\<lambda>found.
       if \<not> found then block [
         printStep ''Installing Chocolatey...'',
         execSync e ''powershell Set-ExecutionPolicy Bypass -Scope Process -Force; [System.Net.ServicePointManager]::SecurityProtocol = [System.Net.ServicePointManager]::SecurityProtocol -bor 3072; iex ((New-Object System.Net.WebClient).DownloadString('https://chocolatey.org/install.ps1'))'' Inherit]
       else js_return ()),
     printStep ''Installing Java Development Kit...'',
     execSync e ''choco install -y openjdk11'' Inherit,
     js_bind (question e ''Would you like to download Android Studio? (y/n): '') (\<lambda>answer.
       if toLowerCase answer = ''y'' then block [
         execSync e ''start https://developer.android.com/studio'' Inherit,
         printWarning ''Please complete Android Studio installation and setup Android SDK manually.'']
       else js_return ()),
     printSuccess ''Windows development environment setup complete.'']"

text \<open>Line 198 starts with a line feed and the ten bytes the source file holds before
  \<^verbatim>\<open> Next Steps:\<close>.\<close>

definition printNextSteps :: "unit js" where
  "printNextSteps = block [
     emit (Call PrintNextSteps),
     console_log ([CHR 0x0A, CHR 0xC3, CHR 0xB0, CHR 0xC5, CHR 0xB8, CHR 0xE2, CHR 0x80, CHR 0x9C,
                   CHR 0xE2, CHR 0x80, CHR 0xB9] @ '' Next Steps:''),
     console_log ''1. Configure Android Studio and install Android SDK'',
     console_log ''2. Set ANDROID_HOME environment variable'',
     console_log ''3. Add platform-tools to PATH'',
     console_log ''4. Run \"react-native doctor\" to verify your installation'',
     console_log ''5. Create your first app: \"npx react-native init MyApp\"'']"

subsection \<open>Lines 42-72: \<^verbatim>\<open>execute\<close>\<close>

text \<open>\<open>platform\<close> is \<^verbatim>\<open>this.platform\<close>, set once by the constructor from
  \<^verbatim>\<open>process.platform\<close>.\<close>

definition execute :: "env \<Rightarrow> string \<Rightarrow> unit js" where
  "execute e platform = block [
     console_log (colors_cyan @ ''React Native Environment Setup'' @ colors_reset),
     console_log ''----------------------------'',
     console_log (''Detected platform: '' @ platform @ [CHR 0x0A]),
     try_catch
       (block [
          checkPrerequisites e,
          checkNodeJS e platform,
          installReactNativeCLI e,
          if platform = ''darwin'' then setupMacOS e
          else if platform = ''linux'' then setupLinux e
          else if platform = ''win32'' then setupWindows e
          else js_return (),
          printSuccess ''React Native environment setup completed successfully!'',
          printNextSteps])
       (\<lambda>message. block [
          printError (''Installation failed: '' @ message),
          process_exit 1])]"

section \<open>Vocabulary for the properties\<close>

subsection \<open>Reading a trace\<close>

text \<open>The methods entered, in order.\<close>

fun calls :: "event list \<Rightarrow> procedure list" where
  "calls [] = []"
| "calls (Call f # evs) = f # calls evs"
| "calls (_ # evs) = calls evs"

text \<open>The commands handed to \<^verbatim>\<open>execSync\<close>, in order, probes included.\<close>

fun commands :: "event list \<Rightarrow> string list" where
  "commands [] = []"
| "commands (Exec c io r # evs) = c # commands evs"
| "commands (_ # evs) = commands evs"

text \<open>What \<open>m\<close> adds to the trace when it runs after the history \<open>t\<close>.\<close>

definition events_of :: "'a js \<Rightarrow> event list \<Rightarrow> event list" where
  "events_of m t = drop (length t) (snd (m t))"

text \<open>Lines 43-45: the three lines every run starts with.\<close>

definition banner :: "string \<Rightarrow> event list" where
  "banner platform =
     [Log (colors_cyan @ ''React Native Environment Setup'' @ colors_reset),
      Log ''----------------------------'',
      Log (''Detected platform: '' @ platform @ [CHR 0x0A])]"

text \<open>Lines 66-67: the final success message and the next-steps output.\<close>

definition completion_output :: "event list" where
  "completion_output =
     [Log (success_line ''React Native environment setup completed successfully!''),
      Call PrintNextSteps,
      Log ([CHR 0x0A, CHR 0xC3, CHR 0xB0, CHR 0xC5, CHR 0xB8, CHR 0xE2, CHR 0x80, CHR 0x9C,
            CHR 0xE2, CHR 0x80, CHR 0xB9] @ '' Next Steps:''),
      Log ''1. Configure Android Studio and install Android SDK'',
      Log ''2. Set ANDROID_HOME environment variable'',
      Log ''3. Add platform-tools to PATH'',
      Log ''4. Run \"react-native doctor\" to verify your installation'',
      Log ''5. Create your first app: \"npx react-native init MyApp\"'']"

text \<open>Lines 49-55: the three stages \<^verbatim>\<open>execute\<close> runs before it looks at the platform
  tag.\<close>

definition earlier_stages :: "env \<Rightarrow> string \<Rightarrow> unit js" where
  "earlier_stages e platform = block [
     checkPrerequisites e,
     checkNodeJS e platform,
     installReactNativeCLI e]"

text \<open>Lines 58-64 on their own: the dispatch on the platform tag.\<close>

definition platform_setup :: "env \<Rightarrow> string \<Rightarrow> unit js" where
  "platform_setup e platform =
     (if platform = ''darwin'' then setupMacOS e
      else if platform = ''linux'' then setupLinux e
      else if platform = ''win32'' then setupWindows e
      else js_return ())"

subsection \<open>Specifications of trace-producing programs\<close>

text \<open>\<open>produces m Q\<close>: from every history, \<open>m\<close> only appends to the trace, and its
  completion and the events it appends satisfy \<open>Q\<close>.\<close>

definition produces :: "'a js \<Rightarrow> ((abrupt + 'a) \<Rightarrow> event list \<Rightarrow> bool) \<Rightarrow> bool" where
  "produces m Q \<longleftrightarrow> (\<forall>t. \<exists>u. snd (m t) = t @ u \<and> Q (fst (m t)) u)"

text \<open>\<open>only P m\<close>: every event \<open>m\<close> appends satisfies \<open>P\<close>.\<close>

definition only :: "(event \<Rightarrow> bool) \<Rightarrow> 'a js \<Rightarrow> bool" where
  "only P m \<longleftrightarrow> produces m (\<lambda>r u. \<forall>ev \<in> set u. P ev)"

text \<open>A failed invocation with inherited streams is never survived: the program that
  made it ends by throwing that very error.\<close>

definition fail_fast :: "(abrupt + 'a) \<Rightarrow> event list \<Rightarrow> bool" where
  "fail_fast r u \<longleftrightarrow> (\<forall>c m. Exec c Inherit (Failed m) \<in> set u \<longrightarrow> r = Inl (Throw m))"

text \<open>When the program returns, the methods it entered are exactly \<open>fs\<close>.\<close>

definition enters :: "procedure list \<Rightarrow> (abrupt + unit) \<Rightarrow> event list \<Rightarrow> bool" where
  "enters fs r u \<longleftrightarrow> (r = Inr () \<longrightarrow> calls u = fs)"

text \<open>The offer to download the IDE, as seen in the events of a setup procedure: once
  a response \<open>a\<close> has been captured, the command \<open>launch\<close> is among the commands run
  exactly when \<open>a\<close>, lowercased, is \<^verbatim>\<open>y\<close>; and with any other response the procedure
  returns.\<close>

definition offer_ok :: "string \<Rightarrow> (abrupt + unit) \<Rightarrow> event list \<Rightarrow> bool" where
  "offer_ok launch r u \<longleftrightarrow>
     (\<forall>q a. Question q (Some a) \<in> set u \<longrightarrow>
        (launch \<in> set (commands u) \<longleftrightarrow> toLowerCase a = ''y'') \<and>
        (toLowerCase a \<noteq> ''y'' \<longrightarrow> r = Inr ()))"

subsection \<open>Concrete environments\<close>

text \<open>The commands listed in \<open>failing\<close> fail whenever they are run, every other command
  succeeds, and the user types \<open>answer\<close>.\<close>

definition env_of :: "string list \<Rightarrow> string \<Rightarrow> env" where
  "env_of failing answer =
     \<lparr>execSync_result = (\<lambda>t c. if c \<in> set failing then Failed (''Command failed: '' @ c) else Succeeded),
      question_result = (\<lambda>t q. Some answer)\<rparr>"

section \<open>Properties\<close>

subsection \<open>Stepping through a program\<close>

lemma checkCommand_eq:
  "checkCommand e c t =
     (Inr (execSync_result e t (c @ '' --version'') = Succeeded),
      t @ [Exec (c @ '' --version'') Ignore (execSync_result e t (c @ '' --version''))])"
  by (simp add: checkCommand_def try_catch_def js_bind_def execSync_def js_return_def
      split: outcome.split)

lemma bind_return: "js_bind (js_return x) f t = f x t"
  by (simp add: js_bind_def js_return_def)

lemma bind_assoc: "js_bind (js_bind m g) f = js_bind m (\<lambda>x. js_bind (g x) f)"
  by (rule ext) (simp add: js_bind_def split: prod.split sum.split)

lemma bind_emit: "js_bind (emit ev) f t = f () (t @ [ev])"
  by (simp add: js_bind_def emit_def)

lemma bind_exit: "js_bind (process_exit n) f t = (Inl (Exit n), t)"
  by (simp add: js_bind_def process_exit_def)

lemma bind_execSync:
  "js_bind (execSync e c io) f t =
     (case execSync_result e t c of
        Succeeded \<Rightarrow> f () (t @ [Exec c io Succeeded])
      | Failed m \<Rightarrow> (Inl (Throw m), t @ [Exec c io (Failed m)]))"
  by (simp add: js_bind_def execSync_def split: outcome.split)

lemma bind_checkCommand:
  "js_bind (checkCommand e c) f t =
     f (execSync_result e t (c @ '' --version'') = Succeeded)
       (t @ [Exec (c @ '' --version'') Ignore (execSync_result e t (c @ '' --version''))])"
  by (simp add: js_bind_def checkCommand_eq)

lemma bind_question:
  "js_bind (question e q) f t =
     (case question_result e t q of
        Some a \<Rightarrow> f a (t @ [Question q (Some a)])
      | None \<Rightarrow> (Inl Pending, t @ [Question q None]))"
  by (simp add: js_bind_def question_def split: option.split)

lemma bind_if: "js_bind (if c then a else b) f = (if c then js_bind a f else js_bind b f)"
  by simp

lemma bind_block_Nil: "js_bind (block []) f t = f () t"
  by (simp add: bind_return)

lemma bind_block_Cons: "js_bind (block (m # ms)) f = js_bind m (\<lambda>_. js_bind (block ms) f)"
  by (simp add: bind_assoc)

lemmas prints = printStep_def printSuccess_def printWarning_def printError_def console_log_def

lemmas step = bind_assoc bind_return bind_emit bind_exit bind_execSync bind_checkCommand
  bind_question bind_if bind_block_Nil bind_block_Cons prints

lemma calls_append: "calls (xs @ ys) = calls xs @ calls ys"
  by (induction xs rule: calls.induct) simp_all

lemma commands_append: "commands (xs @ ys) = commands xs @ commands ys"
  by (induction xs rule: commands.induct) simp_all

lemma toLowerCase_y: "toLowerCase s = ''y'' \<longleftrightarrow> s = ''y'' \<or> s = ''Y''"
proof -
  have one: "(if 65 \<le> (of_char c :: nat) \<and> (of_char c :: nat) \<le> 90
              then char_of (of_char c + 32 :: nat) else c) = CHR ''y'' \<longleftrightarrow>
             c = CHR ''y'' \<or> c = CHR ''Y''" for c
  proof (cases "65 \<le> (of_char c :: nat) \<and> (of_char c :: nat) \<le> 90")
    case True
    then have "char_of (of_char c + 32 :: nat) = CHR ''y'' \<longleftrightarrow> of_char c = (89 :: nat)"
      by (auto simp: char_of_eq_iff take_bit_eq_mod)
    also have "\<dots> \<longleftrightarrow> c = CHR ''Y''"
      using of_char_eq_iff [of c "CHR ''Y''", where ?'a = nat] by simp
    finally show ?thesis using True by auto
  next
    case False
    then show ?thesis by auto
  qed
  show ?thesis
    by (cases s) (auto simp: toLowerCase_def one)
qed

lemma commands_none:
  "\<forall>ev \<in> set u. \<forall>io r. ev \<noteq> Exec c io r \<Longrightarrow> c \<notin> set (commands u)"
  by (induction u rule: commands.induct) auto

subsection \<open>Rules for \<open>produces\<close>\<close>

lemma producesD:
  assumes "produces m Q"
  shows "snd (m t) = t @ events_of m t" and "Q (fst (m t)) (events_of m t)"
  using assms unfolding produces_def events_of_def
  by (metis append_eq_conv_conj)+

lemma produces_return: "Q (Inr x) [] \<Longrightarrow> produces (js_return x) Q"
  by (simp add: produces_def js_return_def)

lemma produces_exit: "Q (Inl (Exit n)) [] \<Longrightarrow> produces (process_exit n) Q"
  by (simp add: produces_def process_exit_def)

lemma produces_emit: "Q (Inr ()) [ev] \<Longrightarrow> produces (emit ev) Q"
  by (simp add: produces_def emit_def)

lemma produces_execSync:
  "Q (Inr ()) [Exec c io Succeeded] \<Longrightarrow> (\<And>m. Q (Inl (Throw m)) [Exec c io (Failed m)]) \<Longrightarrow>
   produces (execSync e c io) Q"
  by (simp add: produces_def execSync_def split: outcome.split)

lemma produces_checkCommand:
  "(\<And>r. Q (Inr (r = Succeeded)) [Exec (c @ '' --version'') Ignore r]) \<Longrightarrow>
   produces (checkCommand e c) Q"
  by (simp add: produces_def checkCommand_eq)

lemma produces_question:
  "(\<And>a. Q (Inr a) [Question q (Some a)]) \<Longrightarrow> Q (Inl Pending) [Question q None] \<Longrightarrow>
   produces (question e q) Q"
  by (simp add: produces_def question_def split: option.split)

lemma produces_bind:
  assumes m: "produces m Q1"
    and f: "\<And>x. produces (f x) Q2"
    and abrupt: "\<And>a u. Q1 (Inl a) u \<Longrightarrow> Q (Inl a) u"
    and normal: "\<And>x u r v. Q1 (Inr x) u \<Longrightarrow> Q2 r v \<Longrightarrow> Q r (u @ v)"
  shows "produces (js_bind m f) Q"
  unfolding produces_def
proof
  fix t
  from m obtain u where u: "snd (m t) = t @ u" "Q1 (fst (m t)) u"
    unfolding produces_def by blast
  show "\<exists>w. snd (js_bind m f t) = t @ w \<and> Q (fst (js_bind m f t)) w"
  proof (cases "fst (m t)")
    case (Inl a)
    with u abrupt show ?thesis
      by (cases "m t") (auto simp: js_bind_def)
  next
    case (Inr x)
    from f [of x] obtain v where v: "snd (f x (t @ u)) = (t @ u) @ v" "Q2 (fst (f x (t @ u))) v"
      unfolding produces_def by blast
    with Inr u normal [of x u "fst (f x (t @ u))" v] show ?thesis
      by (cases "m t") (auto simp: js_bind_def)
  qed
qed

subsection \<open>Rules for \<open>only\<close>\<close>

lemma only_return: "only P (js_return x)"
  by (simp add: only_def produces_return)

lemma only_exit: "only P (process_exit n)"
  by (simp add: only_def produces_exit)

lemma only_emit: "P ev \<Longrightarrow> only P (emit ev)"
  by (simp add: only_def produces_emit)

lemma only_execSync: "(\<And>r. P (Exec c io r)) \<Longrightarrow> only P (execSync e c io)"
  by (simp add: only_def produces_execSync)

lemma only_checkCommand:
  "(\<And>r. P (Exec (c @ '' --version'') Ignore r)) \<Longrightarrow> only P (checkCommand e c)"
  by (simp add: only_def produces_checkCommand)

lemma only_question: "(\<And>a. P (Question q a)) \<Longrightarrow> only P (question e q)"
  by (simp add: only_def produces_question)

lemma only_bind:
  assumes "only P m" and "\<And>x. only P (f x)"
  shows "only P (js_bind m f)"
  unfolding only_def
  by (rule produces_bind [where ?Q1.0 = "\<lambda>r u. \<forall>ev \<in> set u. P ev"
        and ?Q2.0 = "\<lambda>r u. \<forall>ev \<in> set u. P ev"])
     (use assms in \<open>auto simp: only_def\<close>)

lemma only_block_Nil: "only P (block [])"
  by (simp add: only_return)

lemma only_block_Cons: "only P m \<Longrightarrow> only P (block ms) \<Longrightarrow> only P (block (m # ms))"
  by (simp add: only_bind)

lemma only_if: "(c \<Longrightarrow> only P a) \<Longrightarrow> (\<not> c \<Longrightarrow> only P b) \<Longrightarrow> only P (if c then a else b)"
  by simp

lemma only_print:
  "P (Log (step_line s)) \<Longrightarrow> only P (printStep s)"
  "P (Log (success_line s)) \<Longrightarrow> only P (printSuccess s)"
  "P (Log (warning_line s)) \<Longrightarrow> only P (printWarning s)"
  "P (Log (error_line s)) \<Longrightarrow> only P (printError s)"
  "P (Log s) \<Longrightarrow> only P (console_log s)"
  by (simp_all add: prints only_emit)

lemmas only_intros = only_return only_exit only_emit only_execSync only_checkCommand
  only_question only_bind only_block_Nil only_block_Cons only_if only_print

lemma onlyD:
  assumes "only P m"
  shows "snd (m t) = t @ events_of m t" and "\<forall>ev \<in> set (events_of m t). P ev"
  using producesD [OF assms [unfolded only_def], of t] by simp_all

subsection \<open>The small stages, step by step\<close>

lemmas lines = step_line_def success_line_def warning_line_def error_line_def
  colors_cyan_def colors_green_def colors_yellow_def colors_red_def colors_reset_def

lemmas run = step emit_def js_return_def process_exit_def

lemma checkPrerequisites_eq:
  "checkPrerequisites e t =
     (case execSync_result e
             (t @ [Call CheckPrerequisites, Log (step_line ''Checking prerequisites...'')])
             ''git --version'' of
        Succeeded \<Rightarrow>
          (Inr (), t @ [Call CheckPrerequisites, Log (step_line ''Checking prerequisites...''),
             Exec ''git --version'' Ignore Succeeded,
             Log (success_line ''Prerequisites check complete.'')])
      | Failed m \<Rightarrow>
          (Inl (Exit 1), t @ [Call CheckPrerequisites, Log (step_line ''Checking prerequisites...''),
             Exec ''git --version'' Ignore (Failed m),
             Log (warning_line
               ''Git is not installed. Please install Git and run this script again.'')]))"
  by (simp add: checkPrerequisites_def run split: outcome.split)

subsection \<open>\<^verbatim>\<open>execute\<close> in terms of its four stages\<close>

lemma block_single: "block [m] = m"
  by (rule ext) (simp add: js_bind_def js_return_def split: prod.split sum.split)

lemma bind_return_eta: "js_bind (js_return x) f = f x"
  by (rule ext) (rule bind_return)

lemma bind_return_right: "js_bind m js_return = m"
  by (rule ext) (simp add: js_bind_def js_return_def split: prod.split sum.split)

lemma completion_eq:
  "block [printSuccess ''React Native environment setup completed successfully!'',
          printNextSteps] t =
     (Inr (), t @ completion_output)"
  by (simp add: printNextSteps_def completion_output_def run)

lemma handler_eq:
  "block [printError s, process_exit n] t = (Inl (Exit n), t @ [Log (error_line s)])"
  by (simp add: run)

lemma banner_then:
  "block [console_log a, console_log b, console_log c, m] [] = m [Log a, Log b, Log c]"
  by (simp add: run bind_return_eta block_single del: block.simps)
    (simp add: run js_bind_def split: prod.split sum.split)

lemma block_six:
  "block [a, b, c, d, x, y] = js_bind (js_bind (block [a, b, c]) (\<lambda>_. d)) (\<lambda>_. block [x, y])"
  by (simp add: bind_assoc bind_return_eta)

text \<open>The success output follows a normal completion of the four stages, the handler
  turns a thrown error into the failure line and exit code 1, and an exit or a wait
  inside a stage ends the run as it is.\<close>

lemma execute_eq:
  "execute e platform [] =
     (case js_bind (earlier_stages e platform) (\<lambda>_. platform_setup e platform)
             (banner platform) of
        (Inr _, t) \<Rightarrow> (Inr (), t @ completion_output)
      | (Inl (Throw m), t) \<Rightarrow>
          (Inl (Exit 1), t @ [Log (error_line (''Installation failed: '' @ m))])
      | (Inl (Exit n), t) \<Rightarrow> (Inl (Exit n), t)
      | (Inl Pending, t) \<Rightarrow> (Inl Pending, t))"
proof -
  let ?body = "js_bind (earlier_stages e platform) (\<lambda>_. platform_setup e platform)"
  let ?done = "block [printSuccess ''React Native environment setup completed successfully!'',
                      printNextSteps]"
  let ?h = "\<lambda>message. block [printError (''Installation failed: '' @ message), process_exit 1]"
  have "execute e platform [] = try_catch (js_bind ?body (\<lambda>_. ?done)) ?h (banner platform)"
    unfolding execute_def block_six earlier_stages_def platform_setup_def banner_def
    by (rule banner_then)
  also have "\<dots> = (case ?body (banner platform) of
        (Inr _, t) \<Rightarrow> (Inr (), t @ completion_output)
      | (Inl (Throw m), t) \<Rightarrow>
          (Inl (Exit 1), t @ [Log (error_line (''Installation failed: '' @ m))])
      | (Inl (Exit n), t) \<Rightarrow> (Inl (Exit n), t)
      | (Inl Pending, t) \<Rightarrow> (Inl Pending, t))"
    unfolding try_catch_def js_bind_def [of ?body]
    by (simp add: completion_eq handler_eq split: prod.split sum.split abrupt.split
        del: block.simps)
  finally show ?thesis .
qed

lemma execs_of_execute:
  "Exec c io r \<in> set (snd (execute e platform [])) \<longleftrightarrow>
   Exec c io r \<in> set (snd (js_bind (earlier_stages e platform) (\<lambda>_. platform_setup e platform)
                              (banner platform)))"
  by (simp add: execute_eq completion_output_def split: prod.split sum.split abrupt.split)

lemma execute_exits:
  "js_bind (earlier_stages e platform) (\<lambda>_. platform_setup e platform) (banner platform) =
     (Inl (Exit n), t) \<Longrightarrow> execute e platform [] = (Inl (Exit n), t)"
  by (simp add: execute_eq)

subsection \<open>Which procedures a stage enters\<close>

lemma calls_none: "\<forall>ev \<in> set u. \<forall>f. ev \<noteq> Call f \<Longrightarrow> calls u = []"
  by (induction u rule: calls.induct) auto

lemma calls_banner: "calls (banner platform) = []"
  by (simp add: banner_def)

lemma stage_enters:
  assumes "only (\<lambda>ev. \<forall>f. ev \<noteq> Call f) (block rest)"
  shows "produces (block (emit (Call X) # rest)) (enters [X])"
  unfolding block.simps
proof (rule produces_bind [where ?Q1.0 = "\<lambda>r u. u = [Call X]"
      and ?Q2.0 = "\<lambda>r u. \<forall>ev \<in> set u. \<forall>f. ev \<noteq> Call f"])
  show "produces (emit (Call X)) (\<lambda>r u. u = [Call X])"
    by (simp add: produces_emit)
  show "produces (block rest) (\<lambda>r u. \<forall>ev \<in> set u. \<forall>f. ev \<noteq> Call f)"
    using assms by (simp add: only_def)
qed (simp_all add: enters_def calls_none)

lemma enters_bind:
  assumes "produces m (enters xs)" and "produces n (enters ys)"
  shows "produces (js_bind m (\<lambda>_. n)) (enters (xs @ ys))"
  by (rule produces_bind [OF assms]) (auto simp: enters_def calls_append)

lemma enters_checkPrerequisites: "produces (checkPrerequisites e) (enters [CheckPrerequisites])"
  unfolding checkPrerequisites_def
  by (rule stage_enters) (intro only_intros allI impI; simp)

lemma enters_checkNodeJS: "produces (checkNodeJS e platform) (enters [CheckNodeJS])"
  unfolding checkNodeJS_def
  by (rule stage_enters) (intro only_intros allI impI; simp)

lemma enters_installReactNativeCLI:
  "produces (installReactNativeCLI e) (enters [InstallReactNativeCLI])"
  unfolding installReactNativeCLI_def
  by (rule stage_enters) (intro only_intros allI impI; simp)

lemma enters_setupMacOS: "produces (setupMacOS e) (enters [SetupMacOS])"
  unfolding setupMacOS_def
  by (rule stage_enters) (intro only_intros allI impI; simp)

lemma enters_setupLinux: "produces (setupLinux e) (enters [SetupLinux])"
  unfolding setupLinux_def
  by (rule stage_enters) (intro only_intros allI impI; simp)

lemma enters_setupWindows: "produces (setupWindows e) (enters [SetupWindows])"
  unfolding setupWindows_def
  by (rule stage_enters) (intro only_intros allI impI; simp)

lemma enters_earlier_stages:
  "produces (earlier_stages e platform)
     (enters [CheckPrerequisites, CheckNodeJS, InstallReactNativeCLI])"
proof -
  have "earlier_stages e platform =
          js_bind (checkPrerequisites e) (\<lambda>_. js_bind (checkNodeJS e platform)
            (\<lambda>_. installReactNativeCLI e))"
    by (simp add: earlier_stages_def bind_return_right)
  then show ?thesis
    using enters_bind [OF enters_checkPrerequisites
        enters_bind [OF enters_checkNodeJS enters_installReactNativeCLI]]
    by simp
qed

lemma enters_platform_setup:
  assumes "platform = ''darwin'' \<or> platform = ''linux'' \<or> platform = ''win32''"
  shows "produces (platform_setup e platform)
           (enters [if platform = ''darwin'' then SetupMacOS
                    else if platform = ''linux'' then SetupLinux else SetupWindows])"
  using assms enters_setupMacOS enters_setupLinux enters_setupWindows
  by (auto simp: platform_setup_def)

subsection \<open>What can follow a successful probe\<close>

lemma after_git:
  "only (\<lambda>ev. \<forall>m. ev \<noteq> Exec ''git --version'' Ignore (Failed m))
     (js_bind (block [checkNodeJS e platform, installReactNativeCLI e])
        (\<lambda>_. platform_setup e platform))"
  unfolding checkNodeJS_def installReactNativeCLI_def platform_setup_def
    setupMacOS_def setupLinux_def setupWindows_def
  by (intro only_intros allI impI; simp)

lemma checkNodeJS_win32:
  "checkNodeJS e ''win32'' t =
     (case execSync_result e
             (t @ [Call CheckNodeJS, Log (step_line ''Checking Node.js installation...'')])
             ''node --version'' of
        Succeeded \<Rightarrow>
          (Inr (), t @ [Call CheckNodeJS, Log (step_line ''Checking Node.js installation...''),
             Exec ''node --version'' Ignore Succeeded,
             Log (success_line ''Node.js is already installed.'')])
      | Failed m \<Rightarrow>
          (Inl (Exit 1), t @ [Call CheckNodeJS, Log (step_line ''Checking Node.js installation...''),
             Exec ''node --version'' Ignore (Failed m),
             Log (step_line ''Node.js not found. Installing using NVM...''),
             Log (warning_line ''Please install Node.js from https://nodejs.org/'')]))"
  by (simp add: checkNodeJS_def run split: outcome.split)

lemma after_node:
  "only (\<lambda>ev. \<forall>m. ev \<noteq> Exec ''node --version'' Ignore (Failed m))
     (js_bind (installReactNativeCLI e) (\<lambda>_. platform_setup e platform))"
  unfolding installReactNativeCLI_def platform_setup_def
    setupMacOS_def setupLinux_def setupWindows_def
  by (intro only_intros allI impI; simp)

text \<open>Unfolding a run in a given environment.\<close>

lemmas procedures = execute_eq earlier_stages_def platform_setup_def banner_def
  checkPrerequisites_def checkNodeJS_def installReactNativeCLI_def
  setupMacOS_def setupLinux_def setupWindows_def printNextSteps_def

subsection \<open>Rules for \<open>fail_fast\<close>\<close>

lemma ff_return: "produces (js_return x) fail_fast"
  by (simp add: produces_return fail_fast_def)

lemma ff_exit: "produces (process_exit n) fail_fast"
  by (simp add: produces_exit fail_fast_def)

lemma ff_emit:
  "produces (emit (Log s)) fail_fast"
  "produces (emit (Call f)) fail_fast"
  by (simp_all add: produces_emit fail_fast_def)

lemma ff_print:
  "produces (printStep s) fail_fast"
  "produces (printSuccess s) fail_fast"
  "produces (printWarning s) fail_fast"
  "produces (printError s) fail_fast"
  "produces (console_log s) fail_fast"
  by (simp_all add: prints ff_emit)

lemma ff_execSync: "produces (execSync e c io) fail_fast"
  by (rule produces_execSync) (simp_all add: fail_fast_def)

lemma ff_checkCommand: "produces (checkCommand e c) fail_fast"
  by (rule produces_checkCommand) (simp add: fail_fast_def)

lemma ff_question: "produces (question e q) fail_fast"
  by (rule produces_question) (simp_all add: fail_fast_def)

lemma ff_bind:
  assumes "produces m fail_fast" and "\<And>x. produces (f x) fail_fast"
  shows "produces (js_bind m f) fail_fast"
  by (rule produces_bind [where ?Q1.0 = fail_fast and ?Q2.0 = fail_fast])
     (use assms in \<open>auto simp: fail_fast_def\<close>)

lemma ff_block_Nil: "produces (block []) fail_fast"
  by (simp add: ff_return)

lemma ff_block_Cons:
  "produces m fail_fast \<Longrightarrow> produces (block ms) fail_fast \<Longrightarrow> produces (block (m # ms)) fail_fast"
  by (simp add: ff_bind)

lemma ff_if:
  "(c \<Longrightarrow> produces a fail_fast) \<Longrightarrow> (\<not> c \<Longrightarrow> produces b fail_fast) \<Longrightarrow>
   produces (if c then a else b) fail_fast"
  by simp

lemmas ff_intros = ff_return ff_exit ff_emit ff_print ff_execSync ff_checkCommand ff_question
  ff_bind ff_block_Nil ff_block_Cons ff_if

lemma ff_stages:
  "produces (js_bind (earlier_stages e platform) (\<lambda>_. platform_setup e platform)) fail_fast"
  unfolding earlier_stages_def platform_setup_def checkPrerequisites_def checkNodeJS_def
    installReactNativeCLI_def setupMacOS_def setupLinux_def setupWindows_def
  by (intro ff_intros)

subsection \<open>What the stages never print\<close>

text \<open>No stage prints the final success message, any of the next-steps lines or the
  failure line.\<close>

lemma quiet_stages:
  "only (\<lambda>ev. ev \<notin> set completion_output \<and>
               (\<forall>m. ev \<noteq> Log (error_line (''Installation failed: '' @ m))))
     (js_bind (earlier_stages e platform) (\<lambda>_. platform_setup e platform))"
  unfolding earlier_stages_def platform_setup_def checkPrerequisites_def checkNodeJS_def
    installReactNativeCLI_def setupMacOS_def setupLinux_def setupWindows_def
  by (intro only_intros allI impI; simp add: completion_output_def lines)

lemma quiet_banner:
  "\<forall>ev \<in> set (banner platform). ev \<notin> set completion_output \<and>
               (\<forall>m. ev \<noteq> Log (error_line (''Installation failed: '' @ m)))"
  by (simp add: banner_def completion_output_def lines)

lemma failure_line_not_output:
  "Log (error_line (''Installation failed: '' @ m)) \<notin> set completion_output"
  by (simp add: completion_output_def lines)

subsection \<open>The offer to download the IDE\<close>

lemma offer_tail:
  "produces
     (block [
        js_bind (question e q) (\<lambda>answer.
          if toLowerCase answer = ''y'' then block [execSync e launch Inherit, printWarning w]
          else js_return ()),
        printSuccess d])
     (offer_ok launch)"
  unfolding produces_def offer_ok_def
  by (simp add: run split: option.split outcome.split)

lemma offer_cons:
  assumes tail: "produces (block ms) (offer_ok launch)"
    and pre: "only (\<lambda>ev. (\<forall>q a. ev \<noteq> Question q a) \<and> (\<forall>io r. ev \<noteq> Exec launch io r)) m"
  shows "produces (block (m # ms)) (offer_ok launch)"
  unfolding block.simps
proof (rule produces_bind [OF pre [unfolded only_def] tail])
  fix a u
  assume "\<forall>ev \<in> set u. (\<forall>q a. ev \<noteq> Question q a) \<and> (\<forall>io r. ev \<noteq> Exec launch io r)"
  then show "offer_ok launch (Inl a) u"
    by (auto simp: offer_ok_def)
next
  fix x :: unit and u r v
  assume u: "\<forall>ev \<in> set u. (\<forall>q a. ev \<noteq> Question q a) \<and> (\<forall>io r. ev \<noteq> Exec launch io r)"
    and v: "offer_ok launch r v"
  from u have "launch \<notin> set (commands u)"
    by (simp add: commands_none)
  moreover from u have "\<And>q a. Question q (Some a) \<notin> set u"
    by auto
  ultimately show "offer_ok launch r (u @ v)"
    using v by (auto simp: offer_ok_def commands_append)
qed

lemma offer_setupMacOS:
  "produces (setupMacOS e) (offer_ok ''open https://developer.android.com/studio'')"
  unfolding setupMacOS_def
  by (rule offer_tail | rule offer_cons)+ ((intro only_intros allI impI; simp)+)

lemma offer_setupLinux:
  "produces (setupLinux e) (offer_ok ''xdg-open https://developer.android.com/studio'')"
  unfolding setupLinux_def
  by (rule offer_tail | rule offer_cons)+ ((intro only_intros allI impI; simp)+)

lemma offer_setupWindows:
  "produces (setupWindows e) (offer_ok ''start https://developer.android.com/studio'')"
  unfolding setupWindows_def
  by (rule offer_tail | rule offer_cons)+ ((intro only_intros allI impI; simp)+)

subsection \<open>Stages that return\<close>

lemma bind_returns:
  assumes "js_bind m f t = (Inr y, t')"
  obtains x t1 where "m t = (Inr x, t1)" and "f x t1 = (Inr y, t')"
  using assms by (auto simp: js_bind_def split: prod.splits sum.splits)

lemma installReactNativeCLI_returns:
  assumes "installReactNativeCLI e t = (Inr (), t')"
  shows "t' = t @ [Call InstallReactNativeCLI,
                   Log (step_line ''Installing React Native CLI...''),
                   Exec ''npm install -g react-native-cli'' Inherit Succeeded,
                   Log (success_line ''React Native CLI installed successfully.'')]"
  using assms by (simp add: installReactNativeCLI_def run split: outcome.splits)

section \<open>The claims\<close>

text \<open>
  \<^bold>\<open>C1.\<close> On a platform tag other than \<^verbatim>\<open>darwin\<close>, \<^verbatim>\<open>linux\<close> and \<^verbatim>\<open>win32\<close>, a run whose
  three earlier stages return goes on to the final success message and the next-steps
  output and returns; the procedures it has entered are the three earlier stages and
  \<^verbatim>\<open>printNextSteps\<close>, so none of \<^verbatim>\<open>setupMacOS\<close>, \<^verbatim>\<open>setupLinux\<close>, \<^verbatim>\<open>setupWindows\<close>.
\<close>

theorem unrecognized_platform_skips_setup:
  assumes "platform \<noteq> ''darwin''" and "platform \<noteq> ''linux''" and "platform \<noteq> ''win32''"
    and "earlier_stages e platform (banner platform) = (Inr (), t)"
  shows "execute e platform [] = (Inr (), t @ completion_output) \<and>
         calls (t @ completion_output) =
           [CheckPrerequisites, CheckNodeJS, InstallReactNativeCLI, PrintNextSteps]"
proof -
  have "js_bind (earlier_stages e platform) (\<lambda>_. platform_setup e platform) (banner platform) =
          (Inr (), t)"
    using assms by (simp add: js_bind_def platform_setup_def js_return_def)
  then have run: "execute e platform [] = (Inr (), t @ completion_output)"
    by (simp add: execute_eq)
  from producesD [OF enters_earlier_stages, of e platform "banner platform"] assms(4)
  have "t = banner platform @ events_of (earlier_stages e platform) (banner platform)"
    and "calls (events_of (earlier_stages e platform) (banner platform)) =
           [CheckPrerequisites, CheckNodeJS, InstallReactNativeCLI]"
    by (simp_all add: enters_def)
  then have "calls t = [CheckPrerequisites, CheckNodeJS, InstallReactNativeCLI]"
    by (simp add: calls_append [of "banner platform"] calls_banner)
  with run show ?thesis
    by (simp add: calls_append completion_output_def)
qed

theorem unrecognized_platform_skips_setup_witness:
  "fst (earlier_stages (env_of [] ''y'') ''freebsd'' (banner ''freebsd'')) = Inr () \<and>
   fst (execute (env_of [] ''y'') ''freebsd'' []) = Inr () \<and>
   calls (snd (execute (env_of [] ''y'') ''freebsd'' [])) =
     [CheckPrerequisites, CheckNodeJS, InstallReactNativeCLI, PrintNextSteps]"
proof -
  obtain t where h: "earlier_stages (env_of [] ''y'') ''freebsd'' (banner ''freebsd'') = (Inr (), t)"
    by (simp add: earlier_stages_def checkPrerequisites_def checkNodeJS_def
        installReactNativeCLI_def run env_of_def)
  from unrecognized_platform_skips_setup [OF _ _ _ h] h show ?thesis by simp
qed

text \<open>
  \<^bold>\<open>C2.\<close> A run in which the probe \<^verbatim>\<open>git --version\<close> fails ends with exit code 1 right
  after the warning that Git is not installed. Its whole trace is the banner, the entry
  of \<^verbatim>\<open>checkPrerequisites\<close>, its step line, the failed probe and the warning: no other
  stage is entered and no other command is run.
\<close>

theorem missing_git_exits_first:
  assumes "Exec ''git --version'' Ignore (Failed m) \<in> set (snd (execute e platform []))"
  shows "execute e platform [] =
           (Inl (Exit 1),
            banner platform @
            [Call CheckPrerequisites,
             Log (step_line ''Checking prerequisites...''),
             Exec ''git --version'' Ignore (Failed m),
             Log (warning_line
               ''Git is not installed. Please install Git and run this script again.'')]) \<and>
         calls (snd (execute e platform [])) = [CheckPrerequisites] \<and>
         commands (snd (execute e platform [])) = [''git --version'']"
proof -
  let ?rest = "js_bind (block [checkNodeJS e platform, installReactNativeCLI e])
                 (\<lambda>_. platform_setup e platform)"
  let ?t0 = "banner platform @
             [Call CheckPrerequisites, Log (step_line ''Checking prerequisites...'')]"
  have body: "js_bind (earlier_stages e platform) (\<lambda>_. platform_setup e platform) =
                js_bind (checkPrerequisites e) (\<lambda>_. ?rest)"
    by (simp add: earlier_stages_def bind_assoc)
  from assms have inside: "Exec ''git --version'' Ignore (Failed m)
      \<in> set (snd (js_bind (checkPrerequisites e) (\<lambda>_. ?rest) (banner platform)))"
    by (simp add: execs_of_execute body)
  show ?thesis
  proof (cases "execSync_result e ?t0 ''git --version''")
    case Succeeded
    let ?t1 = "?t0 @ [Exec ''git --version'' Ignore Succeeded,
                      Log (success_line ''Prerequisites check complete.'')]"
    from Succeeded
    have "js_bind (checkPrerequisites e) (\<lambda>_. ?rest) (banner platform) = ?rest ?t1"
      by (simp add: js_bind_def checkPrerequisites_eq)
    with inside onlyD [OF after_git, of e platform ?t1] have False
      by (auto simp: banner_def)
    then show ?thesis ..
  next
    case (Failed m')
    then have stop: "js_bind (checkPrerequisites e) (\<lambda>_. ?rest) (banner platform) =
        (Inl (Exit 1), ?t0 @ [Exec ''git --version'' Ignore (Failed m'),
           Log (warning_line
             ''Git is not installed. Please install Git and run this script again.'')])"
      by (simp add: js_bind_def checkPrerequisites_eq)
    with inside have "m' = m"
      by (simp add: banner_def)
    with stop have "execute e platform [] =
        (Inl (Exit 1), ?t0 @ [Exec ''git --version'' Ignore (Failed m),
           Log (warning_line
             ''Git is not installed. Please install Git and run this script again.'')])"
      using execute_exits [of e platform] by (simp add: body)
    then show ?thesis
      by (simp add: banner_def)
  qed
qed

theorem missing_git_exits_first_witness:
  "Exec ''git --version'' Ignore (Failed ''Command failed: git --version'')
     \<in> set (snd (execute (env_of [''git --version''] ''y'') ''linux'' [])) \<and>
   fst (execute (env_of [''git --version''] ''y'') ''linux'' []) = Inl (Exit 1) \<and>
   calls (snd (execute (env_of [''git --version''] ''y'') ''linux'' [])) = [CheckPrerequisites] \<and>
   commands (snd (execute (env_of [''git --version''] ''y'') ''linux'' [])) = [''git --version'']"
proof -
  have h: "Exec ''git --version'' Ignore (Failed ''Command failed: git --version'')
     \<in> set (snd (execute (env_of [''git --version''] ''y'') ''linux'' []))"
    by (simp add: procedures run env_of_def)
  from missing_git_exits_first [OF h] h show ?thesis
    by (simp add: banner_def)
qed

text \<open>
  \<^bold>\<open>C3\<close> (as amended). A run in which an invocation with inherited streams fails, that
  is any \<^verbatim>\<open>execSync\<close> call of a stage other than the existence probes of
  \<^verbatim>\<open>checkCommand\<close>, ends with exit code 1; the last thing it does is print the failure
  line \<^verbatim>\<open>Installation failed:\<close> followed by the message of that error, and neither the
  final success message nor any part of the next-steps output occurs in it.
\<close>

theorem inherited_failure_is_fatal:
  assumes "Exec c Inherit (Failed m) \<in> set (snd (execute e platform []))"
  shows "fst (execute e platform []) = Inl (Exit 1) \<and>
         last (snd (execute e platform [])) = Log (error_line (''Installation failed: '' @ m)) \<and>
         set completion_output \<inter> set (snd (execute e platform [])) = {}"
proof -
  let ?body = "js_bind (earlier_stages e platform) (\<lambda>_. platform_setup e platform)"
  let ?u = "events_of ?body (banner platform)"
  obtain r t where bt: "?body (banner platform) = (r, t)"
    by (cases "?body (banner platform)")
  from producesD [OF ff_stages, of e platform "banner platform"] bt
  have t: "t = banner platform @ ?u" and ff: "fail_fast r ?u"
    by simp_all
  from assms bt have "Exec c Inherit (Failed m) \<in> set t"
    by (simp add: execs_of_execute)
  with t have "Exec c Inherit (Failed m) \<in> set ?u"
    by (auto simp: banner_def)
  with ff have r: "r = Inl (Throw m)"
    by (simp add: fail_fast_def)
  with bt have run: "execute e platform [] =
      (Inl (Exit 1), t @ [Log (error_line (''Installation failed: '' @ m))])"
    by (simp add: execute_eq)
  from onlyD(2) [OF quiet_stages, of e platform "banner platform"] quiet_banner [of platform] t
  have "\<forall>ev \<in> set t. ev \<notin> set completion_output"
    by (metis Un_iff set_append)
  with run failure_line_not_output [of m] show ?thesis
    by auto
qed

text \<open>
  As stated for every subprocess invocation of a stage, C3 fails: the probes are
  invocations too, and \<^verbatim>\<open>checkCommand\<close> catches what they raise. On \<^verbatim>\<open>linux\<close>, with
  \<^verbatim>\<open>node --version\<close> failing and every other command succeeding, the run returns and
  prints the final success message.
\<close>

theorem probe_failure_is_survived:
  "Exec ''node --version'' Ignore (Failed ''Command failed: node --version'')
     \<in> set (snd (execute (env_of [''node --version''] ''n'') ''linux'' [])) \<and>
   fst (execute (env_of [''node --version''] ''n'') ''linux'' []) = Inr () \<and>
   Log (success_line ''React Native environment setup completed successfully!'')
     \<in> set (snd (execute (env_of [''node --version''] ''n'') ''linux'' []))"
  by (simp add: procedures run env_of_def toLowerCase_y completion_output_def)

theorem inherited_failure_is_fatal_witness:
  "Exec ''npm install -g react-native-cli'' Inherit (Failed ''Command failed: npm install -g react-native-cli'')
     \<in> set (snd (execute (env_of [''npm install -g react-native-cli''] ''y'') ''darwin'' [])) \<and>
   fst (execute (env_of [''npm install -g react-native-cli''] ''y'') ''darwin'' []) = Inl (Exit 1) \<and>
   last (snd (execute (env_of [''npm install -g react-native-cli''] ''y'') ''darwin'' [])) =
     Log (error_line ''Installation failed: Command failed: npm install -g react-native-cli'')"
proof -
  have h: "Exec ''npm install -g react-native-cli'' Inherit (Failed ''Command failed: npm install -g react-native-cli'')
     \<in> set (snd (execute (env_of [''npm install -g react-native-cli''] ''y'') ''darwin'' []))"
    by (simp add: procedures run env_of_def)
  from inherited_failure_is_fatal [OF h] h show ?thesis by simp
qed

text \<open>
  \<^bold>\<open>C4.\<close> A run on \<^verbatim>\<open>win32\<close> in which the probe \<^verbatim>\<open>node --version\<close> fails ends with exit
  code 1 right after the guidance to install Node.js by hand. The two probes are the only
  commands of the run: nothing is downloaded and no bootstrap is started.
\<close>

theorem win32_missing_node_exits:
  assumes "Exec ''node --version'' Ignore (Failed m) \<in> set (snd (execute e ''win32'' []))"
  shows "execute e ''win32'' [] =
           (Inl (Exit 1),
            banner ''win32'' @
            [Call CheckPrerequisites,
             Log (step_line ''Checking prerequisites...''),
             Exec ''git --version'' Ignore Succeeded,
             Log (success_line ''Prerequisites check complete.''),
             Call CheckNodeJS,
             Log (step_line ''Checking Node.js installation...''),
             Exec ''node --version'' Ignore (Failed m),
             Log (step_line ''Node.js not found. Installing using NVM...''),
             Log (warning_line ''Please install Node.js from https://nodejs.org/'')]) \<and>
         calls (snd (execute e ''win32'' [])) = [CheckPrerequisites, CheckNodeJS] \<and>
         commands (snd (execute e ''win32'' [])) = [''git --version'', ''node --version'']"
proof -
  let ?rest = "js_bind (installReactNativeCLI e) (\<lambda>_. platform_setup e ''win32'')"
  let ?body = "js_bind (checkPrerequisites e) (\<lambda>_. js_bind (checkNodeJS e ''win32'') (\<lambda>_. ?rest))"
  let ?t0 = "banner ''win32'' @
             [Call CheckPrerequisites, Log (step_line ''Checking prerequisites...'')]"
  let ?t1 = "?t0 @ [Exec ''git --version'' Ignore Succeeded,
                    Log (success_line ''Prerequisites check complete.''),
                    Call CheckNodeJS, Log (step_line ''Checking Node.js installation...'')]"
  have body: "js_bind (earlier_stages e ''win32'') (\<lambda>_. platform_setup e ''win32'') = ?body"
    by (simp add: earlier_stages_def bind_assoc bind_return_eta del: block.simps)
      (simp add: bind_assoc bind_return_eta)
  from assms have inside:
    "Exec ''node --version'' Ignore (Failed m) \<in> set (snd (?body (banner ''win32'')))"
    by (simp add: execs_of_execute body)
  have stop: "?body (banner ''win32'') =
      (Inl (Exit 1), ?t1 @ [Exec ''node --version'' Ignore (Failed m),
         Log (step_line ''Node.js not found. Installing using NVM...''),
         Log (warning_line ''Please install Node.js from https://nodejs.org/'')])"
  proof (cases "execSync_result e ?t0 ''git --version''")
    case (Failed m')
    then have "?body (banner ''win32'') =
        (Inl (Exit 1), ?t0 @ [Exec ''git --version'' Ignore (Failed m'),
           Log (warning_line
             ''Git is not installed. Please install Git and run this script again.'')])"
      by (simp add: js_bind_def checkPrerequisites_eq)
    with inside have False by (simp add: banner_def)
    then show ?thesis ..
  next
    case git: Succeeded
    show ?thesis
    proof (cases "execSync_result e ?t1 ''node --version''")
      case (Failed m')
      with git have "?body (banner ''win32'') =
        (Inl (Exit 1), ?t1 @ [Exec ''node --version'' Ignore (Failed m'),
           Log (step_line ''Node.js not found. Installing using NVM...''),
           Log (warning_line ''Please install Node.js from https://nodejs.org/'')])"
        by (simp add: js_bind_def checkPrerequisites_eq checkNodeJS_win32)
      with inside show ?thesis by (simp add: banner_def)
    next
      case Succeeded
      let ?t2 = "?t1 @ [Exec ''node --version'' Ignore Succeeded,
                        Log (success_line ''Node.js is already installed.'')]"
      from git Succeeded have "?body (banner ''win32'') = ?rest ?t2"
        by (simp add: js_bind_def [of "checkPrerequisites e"] js_bind_def [of "checkNodeJS e ''win32''"]
            checkPrerequisites_eq checkNodeJS_win32)
      with inside onlyD [OF after_node, of e "''win32''" ?t2] have False
        by (auto simp: banner_def)
      then show ?thesis ..
    qed
  qed
  then have "execute e ''win32'' [] =
      (Inl (Exit 1), ?t1 @ [Exec ''node --version'' Ignore (Failed m),
         Log (step_line ''Node.js not found. Installing using NVM...''),
         Log (warning_line ''Please install Node.js from https://nodejs.org/'')])"
    using execute_exits [of e "''win32''"] by (simp add: body)
  then show ?thesis
    by (simp add: banner_def)
qed


theorem win32_missing_node_exits_witness:
  "Exec ''node --version'' Ignore (Failed ''Command failed: node --version'')
     \<in> set (snd (execute (env_of [''node --version''] ''y'') ''win32'' [])) \<and>
   fst (execute (env_of [''node --version''] ''y'') ''win32'' []) = Inl (Exit 1) \<and>
   commands (snd (execute (env_of [''node --version''] ''y'') ''win32'' [])) =
     [''git --version'', ''node --version'']"
proof -
  have h: "Exec ''node --version'' Ignore (Failed ''Command failed: node --version'')
     \<in> set (snd (execute (env_of [''node --version''] ''y'') ''win32'' []))"
    by (simp add: procedures run env_of_def)
  from win32_missing_node_exits [OF h] h show ?thesis
    by (simp add: banner_def)
qed

text \<open>
  \<^bold>\<open>C5.\<close> In each of \<^verbatim>\<open>setupMacOS\<close>, \<^verbatim>\<open>setupLinux\<close> and \<^verbatim>\<open>setupWindows\<close>, from any
  history: once a response \<open>a\<close> has been captured, the command that opens the IDE download
  page (\<^verbatim>\<open>open\<close>, \<^verbatim>\<open>xdg-open\<close>, \<^verbatim>\<open>start\<close>) is among the commands the procedure has
  run if and only if \<open>toLowerCase a\<close> is \<^verbatim>\<open>y\<close>; with any other response, the empty one
  included, the procedure returns.
\<close>

theorem android_studio_offer:
  "(Question q (Some a) \<in> set (events_of (setupMacOS e) t) \<longrightarrow>
      (''open https://developer.android.com/studio'' \<in> set (commands (events_of (setupMacOS e) t))
         \<longleftrightarrow> toLowerCase a = ''y'') \<and>
      (toLowerCase a \<noteq> ''y'' \<longrightarrow> fst (setupMacOS e t) = Inr ())) \<and>
   (Question q (Some a) \<in> set (events_of (setupLinux e) t) \<longrightarrow>
      (''xdg-open https://developer.android.com/studio'' \<in> set (commands (events_of (setupLinux e) t))
         \<longleftrightarrow> toLowerCase a = ''y'') \<and>
      (toLowerCase a \<noteq> ''y'' \<longrightarrow> fst (setupLinux e t) = Inr ())) \<and>
   (Question q (Some a) \<in> set (events_of (setupWindows e) t) \<longrightarrow>
      (''start https://developer.android.com/studio'' \<in> set (commands (events_of (setupWindows e) t))
         \<longleftrightarrow> toLowerCase a = ''y'') \<and>
      (toLowerCase a \<noteq> ''y'' \<longrightarrow> fst (setupWindows e t) = Inr ()))"
  using producesD(2) [OF offer_setupMacOS, of e t] producesD(2) [OF offer_setupLinux, of e t]
    producesD(2) [OF offer_setupWindows, of e t]
  unfolding offer_ok_def by blast

theorem android_studio_offer_witness:
  "toLowerCase ''Y'' = ''y'' \<and> toLowerCase [] \<noteq> ''y'' \<and>
   Question ''Would you like to download Android Studio? (y/n): '' (Some ''Y'')
     \<in> set (events_of (setupMacOS (env_of [] ''Y'')) []) \<and>
   Question ''Would you like to download Android Studio? (y/n): '' (Some [])
     \<in> set (events_of (setupMacOS (env_of [] [])) []) \<and>
   Question ''Would you like to download Android Studio? (y/n): '' (Some ''Y'')
     \<in> set (events_of (setupLinux (env_of [] ''Y'')) []) \<and>
   Question ''Would you like to download Android Studio? (y/n): '' (Some [])
     \<in> set (events_of (setupLinux (env_of [] [])) []) \<and>
   Question ''Would you like to download Android Studio? (y/n): '' (Some ''Y'')
     \<in> set (events_of (setupWindows (env_of [] ''Y'')) []) \<and>
   Question ''Would you like to download Android Studio? (y/n): '' (Some [])
     \<in> set (events_of (setupWindows (env_of [] [])) []) \<and>
   ''open https://developer.android.com/studio''
     \<in> set (commands (events_of (setupMacOS (env_of [] ''Y'')) [])) \<and>
   ''open https://developer.android.com/studio''
     \<notin> set (commands (events_of (setupMacOS (env_of [] [])) [])) \<and>
   fst (setupMacOS (env_of [] []) []) = Inr () \<and>
   ''xdg-open https://developer.android.com/studio''
     \<in> set (commands (events_of (setupLinux (env_of [] ''Y'')) [])) \<and>
   ''xdg-open https://developer.android.com/studio''
     \<notin> set (commands (events_of (setupLinux (env_of [] [])) [])) \<and>
   fst (setupLinux (env_of [] []) []) = Inr () \<and>
   ''start https://developer.android.com/studio''
     \<in> set (commands (events_of (setupWindows (env_of [] ''Y'')) [])) \<and>
   ''start https://developer.android.com/studio''
     \<notin> set (commands (events_of (setupWindows (env_of [] [])) [])) \<and>
   fst (setupWindows (env_of [] []) []) = Inr ()"
proof -
  let ?q = "''Would you like to download Android Studio? (y/n): ''"
  have yes: "toLowerCase ''Y'' = ''y''" and no: "toLowerCase [] \<noteq> ''y''"
    by (simp_all add: toLowerCase_y)
  have asked:
    "Question ?q (Some ''Y'') \<in> set (events_of (setupMacOS (env_of [] ''Y'')) [])"
    "Question ?q (Some []) \<in> set (events_of (setupMacOS (env_of [] [])) [])"
    "Question ?q (Some ''Y'') \<in> set (events_of (setupLinux (env_of [] ''Y'')) [])"
    "Question ?q (Some []) \<in> set (events_of (setupLinux (env_of [] [])) [])"
    "Question ?q (Some ''Y'') \<in> set (events_of (setupWindows (env_of [] ''Y'')) [])"
    "Question ?q (Some []) \<in> set (events_of (setupWindows (env_of [] [])) [])"
    by (simp_all add: events_of_def procedures run env_of_def yes no)
  from android_studio_offer [of ?q "''Y''" "env_of [] ''Y''" "[]"] android_studio_offer [of ?q "[]" "env_of [] []" "[]"]
    asked yes no
  show ?thesis by simp
qed

text \<open>
  \<^bold>\<open>C6.\<close> Whenever the probe \<^verbatim>\<open>node --version\<close> that \<^verbatim>\<open>checkNodeJS\<close> makes succeeds,
  \<^verbatim>\<open>checkNodeJS\<close> returns after printing that Node.js is already installed, and the
  probe is the only command it has run: neither the version-manager bootstrap nor the
  runtime install is invoked.
\<close>

theorem node_present_installs_nothing:
  assumes "Exec ''node --version'' Ignore Succeeded \<in> set (events_of (checkNodeJS e platform) t)"
  shows "checkNodeJS e platform t =
           (Inr (), t @ [Call CheckNodeJS, Log (step_line ''Checking Node.js installation...''),
                         Exec ''node --version'' Ignore Succeeded,
                         Log (success_line ''Node.js is already installed.'')]) \<and>
         commands (events_of (checkNodeJS e platform) t) = [''node --version'']"
  using assms unfolding checkNodeJS_def events_of_def
  by (simp add: run split: outcome.splits if_splits)

theorem node_present_installs_nothing_witness:
  "Exec ''node --version'' Ignore Succeeded
     \<in> set (events_of (checkNodeJS (env_of [] ''y'') ''linux'') []) \<and>
   commands (events_of (checkNodeJS (env_of [] ''y'') ''linux'') []) = [''node --version'']"
proof -
  have h: "Exec ''node --version'' Ignore Succeeded
             \<in> set (events_of (checkNodeJS (env_of [] ''y'') ''linux'') [])"
    by (simp add: checkNodeJS_def events_of_def run env_of_def)
  from node_present_installs_nothing [OF h] h show ?thesis by simp
qed

text \<open>
  \<^bold>\<open>C7.\<close> On each of the three recognised platform tags, a run of \<^verbatim>\<open>execute\<close> that
  returns is made of these steps, in this order: after the banner, \<^verbatim>\<open>checkPrerequisites\<close>
  runs and returns, then \<^verbatim>\<open>checkNodeJS\<close>, then \<^verbatim>\<open>installReactNativeCLI\<close>, then the one
  setup procedure of the tag, each from the trace the one before has left, and then the
  success message and the next-steps output are printed. The procedures entered before
  that output are these four and no other; the global install of the CLI tool has run
  and succeeded, and no invocation with inherited streams has failed.
\<close>

theorem successful_run_stage_sequence:
  assumes "platform = ''darwin'' \<or> platform = ''linux'' \<or> platform = ''win32''"
    and "fst (execute e platform []) = Inr ()"
  shows "(\<exists>t. snd (execute e platform []) = banner platform @ t @ completion_output \<and>
             calls t = [CheckPrerequisites, CheckNodeJS, InstallReactNativeCLI,
                        if platform = ''darwin'' then SetupMacOS
                        else if platform = ''linux'' then SetupLinux else SetupWindows]) \<and>
         (\<exists>t1 t2 t3 t4.
             checkPrerequisites e (banner platform) = (Inr (), t1) \<and>
             checkNodeJS e platform t1 = (Inr (), t2) \<and>
             installReactNativeCLI e t2 = (Inr (), t3) \<and>
             (if platform = ''darwin'' then setupMacOS e
              else if platform = ''linux'' then setupLinux e else setupWindows e) t3 = (Inr (), t4) \<and>
             execute e platform [] = (Inr (), t4 @ completion_output)) \<and>
         Exec ''npm install -g react-native-cli'' Inherit Succeeded
           \<in> set (snd (execute e platform [])) \<and>
         (\<forall>c m. Exec c Inherit (Failed m) \<notin> set (snd (execute e platform [])))"
proof -
  let ?body = "js_bind (earlier_stages e platform) (\<lambda>_. platform_setup e platform)"
  let ?t = "events_of ?body (banner platform)"
  let ?chosen = "if platform = ''darwin'' then setupMacOS e
                else if platform = ''linux'' then setupLinux e else setupWindows e"
  obtain r t4 where bt: "?body (banner platform) = (r, t4)"
    by (cases "?body (banner platform)")
  with assms(2) have r: "r = Inr ()"
    by (simp add: execute_eq split: sum.splits abrupt.splits)
  with bt have run: "execute e platform [] = (Inr (), t4 @ completion_output)"
    by (simp add: execute_eq)
  have "produces ?body
          (enters ([CheckPrerequisites, CheckNodeJS, InstallReactNativeCLI] @
                   [if platform = ''darwin'' then SetupMacOS
                    else if platform = ''linux'' then SetupLinux else SetupWindows]))"
    by (rule enters_bind [OF enters_earlier_stages enters_platform_setup [OF assms(1)]])
  from producesD [OF this, of "banner platform"] bt r
  have t4: "t4 = banner platform @ ?t"
    and "calls ?t = [CheckPrerequisites, CheckNodeJS, InstallReactNativeCLI,
                        if platform = ''darwin'' then SetupMacOS
                        else if platform = ''linux'' then SetupLinux else SetupWindows]"
    by (simp_all add: enters_def)
  with run have first: "\<exists>t. snd (execute e platform []) = banner platform @ t @ completion_output \<and>
             calls t = [CheckPrerequisites, CheckNodeJS, InstallReactNativeCLI,
                        if platform = ''darwin'' then SetupMacOS
                        else if platform = ''linux'' then SetupLinux else SetupWindows]"
    by auto
  have stages: "?body =
      js_bind (checkPrerequisites e) (\<lambda>_. js_bind (checkNodeJS e platform)
        (\<lambda>_. js_bind (installReactNativeCLI e) (\<lambda>_. ?chosen)))"
    using assms(1) by (auto simp: earlier_stages_def platform_setup_def bind_assoc bind_return_eta)
  from bt r obtain t1 where s1: "checkPrerequisites e (banner platform) = (Inr (), t1)"
    and "js_bind (checkNodeJS e platform)
        (\<lambda>_. js_bind (installReactNativeCLI e) (\<lambda>_. ?chosen)) t1 = (Inr (), t4)"
    unfolding stages by (auto elim: bind_returns)
  then obtain t2 where s2: "checkNodeJS e platform t1 = (Inr (), t2)"
    and "js_bind (installReactNativeCLI e) (\<lambda>_. ?chosen) t2 = (Inr (), t4)"
    by (auto elim: bind_returns)
  then obtain t3 where s3: "installReactNativeCLI e t2 = (Inr (), t3)"
    and s4: "?chosen t3 = (Inr (), t4)"
    by (auto elim: bind_returns)
  from s1 s2 s3 s4 run have second: "\<exists>t1 t2 t3 t4.
             checkPrerequisites e (banner platform) = (Inr (), t1) \<and>
             checkNodeJS e platform t1 = (Inr (), t2) \<and>
             installReactNativeCLI e t2 = (Inr (), t3) \<and>
             ?chosen t3 = (Inr (), t4) \<and>
             execute e platform [] = (Inr (), t4 @ completion_output)"
    by blast
  have "?chosen = platform_setup e platform"
    using assms(1) by (auto simp: platform_setup_def)
  with s4 producesD(1) [OF enters_platform_setup [OF assms(1)], of e t3]
  have "t4 = t3 @ events_of (platform_setup e platform) t3"
    by simp
  with installReactNativeCLI_returns [OF s3]
  have "Exec ''npm install -g react-native-cli'' Inherit Succeeded \<in> set t4"
    by simp
  with run have third: "Exec ''npm install -g react-native-cli'' Inherit Succeeded
           \<in> set (snd (execute e platform []))"
    by simp
  have fourth: "Exec c Inherit (Failed m) \<notin> set (snd (execute e platform []))" for c m
  proof
    assume "Exec c Inherit (Failed m) \<in> set (snd (execute e platform []))"
    with bt have "Exec c Inherit (Failed m) \<in> set t4"
      by (simp add: execs_of_execute)
    with t4 have "Exec c Inherit (Failed m) \<in> set ?t"
      by (auto simp: banner_def)
    with producesD(2) [OF ff_stages, of e platform "banner platform"] bt r
    show False
      by (simp add: fail_fast_def)
  qed
  from first second third fourth show ?thesis
    by blast
qed

theorem successful_run_stage_sequence_witness:
  "fst (execute (env_of [] ''Y'') ''darwin'' []) = Inr () \<and>
   calls (snd (execute (env_of [] ''Y'') ''darwin'' [])) =
     [CheckPrerequisites, CheckNodeJS, InstallReactNativeCLI, SetupMacOS, PrintNextSteps] \<and>
   fst (execute (env_of [] ''n'') ''linux'' []) = Inr () \<and>
   calls (snd (execute (env_of [] ''n'') ''linux'' [])) =
     [CheckPrerequisites, CheckNodeJS, InstallReactNativeCLI, SetupLinux, PrintNextSteps] \<and>
   fst (execute (env_of [''choco --version''] '''') ''win32'' []) = Inr () \<and>
   calls (snd (execute (env_of [''choco --version''] '''') ''win32'' [])) =
     [CheckPrerequisites, CheckNodeJS, InstallReactNativeCLI, SetupWindows, PrintNextSteps] \<and>
   Exec ''npm install -g react-native-cli'' Inherit Succeeded
     \<in> set (snd (execute (env_of [''choco --version''] '''') ''win32'' []))"
proof -
  have d: "fst (execute (env_of [] ''Y'') ''darwin'' []) = Inr ()"
    by (simp add: procedures run env_of_def toLowerCase_y)
  have l: "fst (execute (env_of [] ''n'') ''linux'' []) = Inr ()"
    by (simp add: procedures run env_of_def toLowerCase_y)
  have w: "fst (execute (env_of [''choco --version''] '''') ''win32'' []) = Inr ()"
    by (simp add: procedures run env_of_def toLowerCase_y)
  from successful_run_stage_sequence [OF _ d] successful_run_stage_sequence [OF _ l]
    successful_run_stage_sequence [OF _ w] d l w
  show ?thesis
    by (auto simp: calls_append calls_banner completion_output_def)
qed

text \<open>
  \<^bold>\<open>C8.\<close> \<^verbatim>\<open>checkCommand(name)\<close> never ends abruptly, whatever the name and the history:
  it runs \<^verbatim>\<open>name --version\<close> once, with its streams ignored, and returns \<open>True\<close> when
  that invocation succeeds and \<open>False\<close> when it fails, for whatever reason; the error is
  swallowed.
\<close>

theorem checkCommand_never_raises:
  "checkCommand e name t =
     (Inr (execSync_result e t (name @ '' --version'') = Succeeded),
      t @ [Exec (name @ '' --version'') Ignore (execSync_result e t (name @ '' --version''))])"
  by (rule checkCommand_eq)

theorem checkCommand_never_raises_witness:
  "checkCommand (env_of [] ''y'') ''git'' [] =
     (Inr True, [Exec ''git --version'' Ignore Succeeded]) \<and>
   checkCommand (env_of [''git --version''] ''y'') ''git'' [] =
     (Inr False, [Exec ''git --version'' Ignore (Failed ''Command failed: git --version'')])"
  using checkCommand_never_raises [of "env_of [] ''y''" "''git''" "[]"]
    checkCommand_never_raises [of "env_of [''git --version''] ''y''" "''git''" "[]"]
  by (simp add: env_of_def)

text \<open>
  \<^bold>\<open>C9\<close> (as amended). On every platform tag other than \<^verbatim>\<open>win32\<close>, recognised or
  not, when the probe \<^verbatim>\<open>node --version\<close> that \<^verbatim>\<open>checkNodeJS\<close> makes fails,
  \<^verbatim>\<open>checkNodeJS\<close> does not exit the process: it runs the version-manager bootstrap, and
  it runs the runtime install exactly when the bootstrap has returned. It ends in one of
  three ways: the bootstrap fails and its error is thrown, with the runtime install not
  run; the bootstrap returns, the runtime install fails and its error is thrown; or both
  return and so does \<^verbatim>\<open>checkNodeJS\<close>.
\<close>

theorem missing_node_bootstrap:
  assumes "platform \<noteq> ''win32''"
    and "Exec ''node --version'' Ignore (Failed m) \<in> set (events_of (checkNodeJS e platform) t)"
  shows "commands (events_of (checkNodeJS e platform) t) =
           (if Exec ''curl -o- https://raw.githubusercontent.com/nvm-sh/nvm/v0.39.0/install.sh | bash''
                 Inherit Succeeded \<in> set (events_of (checkNodeJS e platform) t)
            then [''node --version'',
                  ''curl -o- https://raw.githubusercontent.com/nvm-sh/nvm/v0.39.0/install.sh | bash'',
                  ''source ~/.bashrc && nvm install --lts'']
            else [''node --version'',
                  ''curl -o- https://raw.githubusercontent.com/nvm-sh/nvm/v0.39.0/install.sh | bash'']) \<and>
         (\<forall>n. fst (checkNodeJS e platform t) \<noteq> Inl (Exit n)) \<and>
         ((\<exists>m1. checkNodeJS e platform t =
             (Inl (Throw m1),
              t @ [Call CheckNodeJS, Log (step_line ''Checking Node.js installation...''),
                   Exec ''node --version'' Ignore (Failed m),
                   Log (step_line ''Node.js not found. Installing using NVM...''),
                   Exec ''curl -o- https://raw.githubusercontent.com/nvm-sh/nvm/v0.39.0/install.sh | bash''
                     Inherit (Failed m1)])) \<or>
          (\<exists>m2. checkNodeJS e platform t =
             (Inl (Throw m2),
              t @ [Call CheckNodeJS, Log (step_line ''Checking Node.js installation...''),
                   Exec ''node --version'' Ignore (Failed m),
                   Log (step_line ''Node.js not found. Installing using NVM...''),
                   Exec ''curl -o- https://raw.githubusercontent.com/nvm-sh/nvm/v0.39.0/install.sh | bash''
                     Inherit Succeeded,
                   Exec ''source ~/.bashrc && nvm install --lts'' Inherit (Failed m2)])) \<or>
          checkNodeJS e platform t =
             (Inr (),
              t @ [Call CheckNodeJS, Log (step_line ''Checking Node.js installation...''),
                   Exec ''node --version'' Ignore (Failed m),
                   Log (step_line ''Node.js not found. Installing using NVM...''),
                   Exec ''curl -o- https://raw.githubusercontent.com/nvm-sh/nvm/v0.39.0/install.sh | bash''
                     Inherit Succeeded,
                   Exec ''source ~/.bashrc && nvm install --lts'' Inherit Succeeded]))"
  using assms unfolding checkNodeJS_def events_of_def
  by (simp add: run split: outcome.splits if_splits)

text \<open>
  As stated, with the runtime install attempted in every such run, C9 fails: on
  \<^verbatim>\<open>linux\<close>, when the probe and the bootstrap both fail, the error of the bootstrap is
  thrown and the runtime install is never run.
\<close>

theorem failed_bootstrap_skips_install:
  "''linux'' \<noteq> ''win32'' \<and>
   Exec ''node --version'' Ignore (Failed ''Command failed: node --version'')
     \<in> set (events_of
          (checkNodeJS
             (env_of [''node --version'',
                ''curl -o- https://raw.githubusercontent.com/nvm-sh/nvm/v0.39.0/install.sh | bash''] ''y'')
             ''linux'') []) \<and>
   ''source ~/.bashrc && nvm install --lts''
     \<notin> set (commands (events_of
          (checkNodeJS
             (env_of [''node --version'',
                ''curl -o- https://raw.githubusercontent.com/nvm-sh/nvm/v0.39.0/install.sh | bash''] ''y'')
             ''linux'') []))"
  by (simp add: events_of_def checkNodeJS_def run env_of_def)

theorem missing_node_bootstrap_witness:
  "Exec ''node --version'' Ignore (Failed ''Command failed: node --version'')
     \<in> set (events_of (checkNodeJS (env_of [''node --version''] ''y'') ''freebsd'') []) \<and>
   commands (events_of (checkNodeJS (env_of [''node --version''] ''y'') ''freebsd'') []) =
     [''node --version'',
      ''curl -o- https://raw.githubusercontent.com/nvm-sh/nvm/v0.39.0/install.sh | bash'',
      ''source ~/.bashrc && nvm install --lts''] \<and>
   fst (checkNodeJS (env_of [''node --version''] ''y'') ''freebsd'' []) = Inr () \<and>
   Exec ''node --version'' Ignore (Failed ''Command failed: node --version'')
     \<in> set (events_of
          (checkNodeJS
             (env_of [''node --version'', ''source ~/.bashrc && nvm install --lts''] ''y'')
             ''darwin'') []) \<and>
   fst (checkNodeJS
          (env_of [''node --version'', ''source ~/.bashrc && nvm install --lts''] ''y'')
          ''darwin'' []) =
     Inl (Throw ''Command failed: source ~/.bashrc && nvm install --lts'') \<and>
   commands (events_of
          (checkNodeJS
             (env_of [''node --version'', ''source ~/.bashrc && nvm install --lts''] ''y'')
             ''darwin'') []) =
     [''node --version'',
      ''curl -o- https://raw.githubusercontent.com/nvm-sh/nvm/v0.39.0/install.sh | bash'',
      ''source ~/.bashrc && nvm install --lts'']"
proof -
  let ?e1 = "env_of [''node --version''] ''y''"
  let ?e2 = "env_of [''node --version'', ''source ~/.bashrc && nvm install --lts''] ''y''"
  have h1: "Exec ''node --version'' Ignore (Failed ''Command failed: node --version'')
     \<in> set (events_of (checkNodeJS ?e1 ''freebsd'') [])"
    by (simp add: events_of_def checkNodeJS_def run env_of_def)
  have ok1: "Exec ''curl -o- https://raw.githubusercontent.com/nvm-sh/nvm/v0.39.0/install.sh | bash''
                 Inherit Succeeded
     \<in> set (events_of (checkNodeJS ?e1 ''freebsd'') [])"
    by (simp add: events_of_def checkNodeJS_def run env_of_def)
  have r1: "fst (checkNodeJS ?e1 ''freebsd'' []) = Inr ()"
    by (simp add: checkNodeJS_def run env_of_def)
  have h2: "Exec ''node --version'' Ignore (Failed ''Command failed: node --version'')
     \<in> set (events_of (checkNodeJS ?e2 ''darwin'') [])"
    by (simp add: events_of_def checkNodeJS_def run env_of_def)
  have ok2: "Exec ''curl -o- https://raw.githubusercontent.com/nvm-sh/nvm/v0.39.0/install.sh | bash''
                 Inherit Succeeded
     \<in> set (events_of (checkNodeJS ?e2 ''darwin'') [])"
    by (simp add: events_of_def checkNodeJS_def run env_of_def)
  have r2: "fst (checkNodeJS ?e2 ''darwin'' []) =
      Inl (Throw ''Command failed: source ~/.bashrc && nvm install --lts'')"
    by (simp add: checkNodeJS_def run env_of_def)
  from missing_node_bootstrap [OF _ h1] missing_node_bootstrap [OF _ h2] h1 ok1 r1 h2 ok2 r2 show ?thesis by simp
qed

text \<open>
  \<^bold>\<open>C10.\<close> No run of \<^verbatim>\<open>execute\<close> prints both the final success message and a line
  \<^verbatim>\<open>Installation failed: ...\<close>, whatever the message.
\<close>

theorem success_excludes_failure:
  "\<not> (Log (success_line ''React Native environment setup completed successfully!'')
         \<in> set (snd (execute e platform [])) \<and>
       Log (error_line (''Installation failed: '' @ m)) \<in> set (snd (execute e platform [])))"
proof -
  let ?body = "js_bind (earlier_stages e platform) (\<lambda>_. platform_setup e platform)"
  let ?u = "events_of ?body (banner platform)"
  let ?ok = "Log (success_line ''React Native environment setup completed successfully!'')"
  let ?ko = "Log (error_line (''Installation failed: '' @ m))"
  obtain r t where bt: "?body (banner platform) = (r, t)"
    by (cases "?body (banner platform)")
  from onlyD [OF quiet_stages, of e platform "banner platform"] bt
  have t: "t = banner platform @ ?u"
    and u: "\<forall>ev \<in> set ?u. ev \<notin> set completion_output \<and>
               (\<forall>m. ev \<noteq> Log (error_line (''Installation failed: '' @ m)))"
    by simp_all
  have ok: "?ok \<in> set completion_output"
    by (simp add: completion_output_def)
  from t u quiet_banner [of platform] ok have quiet: "?ok \<notin> set t" "?ko \<notin> set t"
    by auto
  show ?thesis
  proof (cases r)
    case (Inr x)
    with bt have "snd (execute e platform []) = t @ completion_output"
      by (simp add: execute_eq)
    with quiet failure_line_not_output [of m] show ?thesis by simp
  next
    case (Inl a)
    with bt quiet show ?thesis
      by (cases a) (simp_all add: execute_eq lines)
  qed
qed

theorem success_excludes_failure_witness:
  "Log (success_line ''React Native environment setup completed successfully!'')
     \<in> set (snd (execute (env_of [] ''n'') ''linux'' [])) \<and>
   Log (error_line (''Installation failed: '' @ ''Command failed: sudo apt-get update''))
     \<notin> set (snd (execute (env_of [] ''n'') ''linux'' [])) \<and>
   Log (error_line (''Installation failed: '' @ ''Command failed: sudo apt-get update''))
     \<in> set (snd (execute (env_of [''sudo apt-get update''] ''n'') ''linux'' [])) \<and>
   Log (success_line ''React Native environment setup completed successfully!'')
     \<notin> set (snd (execute (env_of [''sudo apt-get update''] ''n'') ''linux'' []))"
proof -
  have a: "Log (success_line ''React Native environment setup completed successfully!'')
     \<in> set (snd (execute (env_of [] ''n'') ''linux'' []))"
    by (simp add: procedures run env_of_def toLowerCase_y completion_output_def)
  have b: "Log (error_line (''Installation failed: '' @ ''Command failed: sudo apt-get update''))
     \<in> set (snd (execute (env_of [''sudo apt-get update''] ''n'') ''linux'' []))"
    by (simp add: procedures run env_of_def)
  from a b success_excludes_failure [of "env_of [] ''n''" "''linux''" "''Command failed: sudo apt-get update''"]
    success_excludes_failure [of "env_of [''sudo apt-get update''] ''n''" "''linux''" "''Command failed: sudo apt-get update''"]
  show ?thesis by blast
qed

end
